theory Spec2Isabelle
  imports Complex_Main "HOL-Library.Word"
begin

section \<open>Thermocouple type selectors\<close>

text \<open>
  \<^verbatim>\<open>thermocouple_calculator.h\<close>, lines 64-78, declares an anonymous \<^verbatim>\<open>enum\<close> with thirteen
  enumerators and no explicit values. In C every enumerator is a constant of type
  \<^verbatim>\<open>int\<close>; the first one is 0 and each later one is its predecessor plus one. The
  definitions below follow the declaration line by line.
\<close>

definition Thermocouple_R :: int where
  "Thermocouple_R = 0"

definition Thermocouple_S :: int where
  "Thermocouple_S = Thermocouple_R + 1"

definition Thermocouple_B :: int where
  "Thermocouple_B = Thermocouple_S + 1"

definition Thermocouple_J :: int where
  "Thermocouple_J = Thermocouple_B + 1"

definition Thermocouple_T :: int where
  "Thermocouple_T = Thermocouple_J + 1"

definition Thermocouple_E :: int where
  "Thermocouple_E = Thermocouple_T + 1"

definition Thermocouple_K :: int where
  "Thermocouple_K = Thermocouple_E + 1"

definition Thermocouple_N :: int where
  "Thermocouple_N = Thermocouple_K + 1"

definition Thermocouple_A1 :: int where
  "Thermocouple_A1 = Thermocouple_N + 1"

definition Thermocouple_A2 :: int where
  "Thermocouple_A2 = Thermocouple_A1 + 1"

definition Thermocouple_A3 :: int where
  "Thermocouple_A3 = Thermocouple_A2 + 1"

definition Thermocouple_L :: int where
  "Thermocouple_L = Thermocouple_A3 + 1"

definition Thermocouple_M :: int where
  "Thermocouple_M = Thermocouple_L + 1"

text \<open>The enumerators in the order of their declaration.\<close>

definition enumerators :: "int list" where
  "enumerators =
    [Thermocouple_R, Thermocouple_S, Thermocouple_B, Thermocouple_J, Thermocouple_T,
     Thermocouple_E, Thermocouple_K, Thermocouple_N, Thermocouple_A1, Thermocouple_A2,
     Thermocouple_A3, Thermocouple_L, Thermocouple_M]"

text \<open>
  The selector parameter of \<^verbatim>\<open>Thermocouple_Get_Temperature\<close> (line 107) is a
  \<^verbatim>\<open>uint8_t\<close>. Compared with an enumerator it is promoted to \<^verbatim>\<open>int\<close>, which is
  \<^const>\<open>uint\<close> on an 8-bit word. A selector is known when it equals one of the enumerators.
\<close>

type_synonym uint8_t = "8 word"

definition known_type :: "uint8_t \<Rightarrow> bool" where
  "known_type Type \<longleftrightarrow> uint Type \<in> set enumerators"

section \<open>The converters\<close>

text \<open>
  Lines 80-105 declare thirteen pairs of converters, each of type
  \<^verbatim>\<open>double f(double)\<close>. The header holds no body and no coefficient, so the converters are
  a parameter of the development: a record with one field per declared function, over a
  type \<open>'d\<close> standing for \<^verbatim>\<open>double\<close>. The only operation on \<open>'d\<close> that the dispatcher
  needs is addition.
\<close>

record 'd converters =
  Thermocouple_temperature_to_TEMF_R :: "'d \<Rightarrow> 'd"
  Thermocouple_TEMF_to_temperature_R :: "'d \<Rightarrow> 'd"
  Thermocouple_temperature_to_TEMF_S :: "'d \<Rightarrow> 'd"
  Thermocouple_TEMF_to_temperature_S :: "'d \<Rightarrow> 'd"
  Thermocouple_temperature_to_TEMF_B :: "'d \<Rightarrow> 'd"
  Thermocouple_TEMF_to_temperature_B :: "'d \<Rightarrow> 'd"
  Thermocouple_temperature_to_TEMF_J :: "'d \<Rightarrow> 'd"
  Thermocouple_TEMF_to_temperature_J :: "'d \<Rightarrow> 'd"
  Thermocouple_temperature_to_TEMF_T :: "'d \<Rightarrow> 'd"
  Thermocouple_TEMF_to_temperature_T :: "'d \<Rightarrow> 'd"
  Thermocouple_temperature_to_TEMF_E :: "'d \<Rightarrow> 'd"
  Thermocouple_TEMF_to_temperature_E :: "'d \<Rightarrow> 'd"
  Thermocouple_temperature_to_TEMF_K :: "'d \<Rightarrow> 'd"
  Thermocouple_TEMF_to_temperature_K :: "'d \<Rightarrow> 'd"
  Thermocouple_temperature_to_TEMF_N :: "'d \<Rightarrow> 'd"
  Thermocouple_TEMF_to_temperature_N :: "'d \<Rightarrow> 'd"
  Thermocouple_temperature_to_TEMF_A1 :: "'d \<Rightarrow> 'd"
  Thermocouple_TEMF_to_temperature_A1 :: "'d \<Rightarrow> 'd"
  Thermocouple_temperature_to_TEMF_A2 :: "'d \<Rightarrow> 'd"
  Thermocouple_TEMF_to_temperature_A2 :: "'d \<Rightarrow> 'd"
  Thermocouple_temperature_to_TEMF_A3 :: "'d \<Rightarrow> 'd"
  Thermocouple_TEMF_to_temperature_A3 :: "'d \<Rightarrow> 'd"
  Thermocouple_temperature_to_TEMF_L :: "'d \<Rightarrow> 'd"
  Thermocouple_TEMF_to_temperature_L :: "'d \<Rightarrow> 'd"
  Thermocouple_temperature_to_TEMF_M :: "'d \<Rightarrow> 'd"
  Thermocouple_TEMF_to_temperature_M :: "'d \<Rightarrow> 'd"

text \<open>
  The two families in the order of their declaration, which is the order of the
  enumerators: the converter of the type with ordinal \<open>n\<close> is the \<open>n\<close>-th entry.
\<close>

definition temperature_to_TEMF :: "'d converters \<Rightarrow> ('d \<Rightarrow> 'd) list" where
  "temperature_to_TEMF cv =
    [Thermocouple_temperature_to_TEMF_R cv, Thermocouple_temperature_to_TEMF_S cv,
     Thermocouple_temperature_to_TEMF_B cv, Thermocouple_temperature_to_TEMF_J cv,
     Thermocouple_temperature_to_TEMF_T cv, Thermocouple_temperature_to_TEMF_E cv,
     Thermocouple_temperature_to_TEMF_K cv, Thermocouple_temperature_to_TEMF_N cv,
     Thermocouple_temperature_to_TEMF_A1 cv, Thermocouple_temperature_to_TEMF_A2 cv,
     Thermocouple_temperature_to_TEMF_A3 cv, Thermocouple_temperature_to_TEMF_L cv,
     Thermocouple_temperature_to_TEMF_M cv]"

definition TEMF_to_temperature :: "'d converters \<Rightarrow> ('d \<Rightarrow> 'd) list" where
  "TEMF_to_temperature cv =
    [Thermocouple_TEMF_to_temperature_R cv, Thermocouple_TEMF_to_temperature_S cv,
     Thermocouple_TEMF_to_temperature_B cv, Thermocouple_TEMF_to_temperature_J cv,
     Thermocouple_TEMF_to_temperature_T cv, Thermocouple_TEMF_to_temperature_E cv,
     Thermocouple_TEMF_to_temperature_K cv, Thermocouple_TEMF_to_temperature_N cv,
     Thermocouple_TEMF_to_temperature_A1 cv, Thermocouple_TEMF_to_temperature_A2 cv,
     Thermocouple_TEMF_to_temperature_A3 cv, Thermocouple_TEMF_to_temperature_L cv,
     Thermocouple_TEMF_to_temperature_M cv]"

section \<open>The dispatcher\<close>

text \<open>
  Modelled from the spec: the selection of a type's converter pair. The body of
  \<^verbatim>\<open>Thermocouple_Get_Temperature\<close> is not in the header; section 3 of the specification
  says that the type selector "selects which converter pair and coefficient table to
  use", and section 4.3 that a selector which is not one of the thirteen known values is
  rejected. The selector is compared with each enumerator in turn, as a C \<^verbatim>\<open>switch\<close>
  does; \<open>None\<close> is the \<^verbatim>\<open>default\<close> branch.
\<close>

definition converter_pair ::
  "'d converters \<Rightarrow> uint8_t \<Rightarrow> (('d \<Rightarrow> 'd) \<times> ('d \<Rightarrow> 'd)) option" where
  "converter_pair cv Type =
    (if uint Type = Thermocouple_R then
       Some (Thermocouple_temperature_to_TEMF_R cv, Thermocouple_TEMF_to_temperature_R cv)
     else if uint Type = Thermocouple_S then
       Some (Thermocouple_temperature_to_TEMF_S cv, Thermocouple_TEMF_to_temperature_S cv)
     else if uint Type = Thermocouple_B then
       Some (Thermocouple_temperature_to_TEMF_B cv, Thermocouple_TEMF_to_temperature_B cv)
     else if uint Type = Thermocouple_J then
       Some (Thermocouple_temperature_to_TEMF_J cv, Thermocouple_TEMF_to_temperature_J cv)
     else if uint Type = Thermocouple_T then
       Some (Thermocouple_temperature_to_TEMF_T cv, Thermocouple_TEMF_to_temperature_T cv)
     else if uint Type = Thermocouple_E then
       Some (Thermocouple_temperature_to_TEMF_E cv, Thermocouple_TEMF_to_temperature_E cv)
     else if uint Type = Thermocouple_K then
       Some (Thermocouple_temperature_to_TEMF_K cv, Thermocouple_TEMF_to_temperature_K cv)
     else if uint Type = Thermocouple_N then
       Some (Thermocouple_temperature_to_TEMF_N cv, Thermocouple_TEMF_to_temperature_N cv)
     else if uint Type = Thermocouple_A1 then
       Some (Thermocouple_temperature_to_TEMF_A1 cv, Thermocouple_TEMF_to_temperature_A1 cv)
     else if uint Type = Thermocouple_A2 then
       Some (Thermocouple_temperature_to_TEMF_A2 cv, Thermocouple_TEMF_to_temperature_A2 cv)
     else if uint Type = Thermocouple_A3 then
       Some (Thermocouple_temperature_to_TEMF_A3 cv, Thermocouple_TEMF_to_temperature_A3 cv)
     else if uint Type = Thermocouple_L then
       Some (Thermocouple_temperature_to_TEMF_L cv, Thermocouple_TEMF_to_temperature_L cv)
     else if uint Type = Thermocouple_M then
       Some (Thermocouple_temperature_to_TEMF_M cv, Thermocouple_TEMF_to_temperature_M cv)
     else None)"

text \<open>
  Modelled from the spec: the body of \<^verbatim>\<open>Thermocouple_Get_Temperature\<close> and the effect of
  \<^verbatim>\<open>Thermocouple_hardfault\<close>, of which the header has the declarations only (lines 106
  and 107). Section 4.3 of the specification gives the algorithm:

    \<^enum> validate the type; if it is not one of the thirteen known values, invoke the error
      hook and return a sentinel value;
    \<^enum> \<open>cold_junction_EMF = temperature_to_EMF[type](cold_junction_temperature)\<close>;
    \<^enum> \<open>total_EMF = measured_EMF + cold_junction_EMF\<close>;
    \<^enum> return \<open>EMF_to_temperature[type](total_EMF)\<close>.

  The hook is a \<^verbatim>\<open>void\<close> function whose behaviour section 4.4 leaves to the implementer,
  so it is a parameter: a transformer of whatever state \<open>'s\<close> it acts on, and the
  dispatcher passes that state through. The value returned for an unknown type is the
  parameter \<open>sentinel\<close>. A hook that never returns is outside this model.
\<close>

definition Thermocouple_Get_Temperature ::
  "('d::plus) converters \<Rightarrow> ('s \<Rightarrow> 's) \<Rightarrow> 'd \<Rightarrow> 'd \<Rightarrow> 'd \<Rightarrow> uint8_t \<Rightarrow> 's \<Rightarrow> 'd \<times> 's" where
  "Thermocouple_Get_Temperature cv Thermocouple_hardfault sentinel Temperature_cold_junior TEMF Type s =
    (case converter_pair cv Type of
       None \<Rightarrow> (sentinel, Thermocouple_hardfault s)
     | Some (temperature_to_EMF, EMF_to_temperature) \<Rightarrow>
         let cold_junction_EMF = temperature_to_EMF Temperature_cold_junior;
             total_EMF = TEMF + cold_junction_EMF
         in (EMF_to_temperature total_EMF, s))"

text \<open>
  A table of integer stand-ins on which the dispatcher can be run: the converter of the
  type with ordinal \<open>n\<close> multiplies by \<open>n + 2\<close> and its inverse divides by \<open>n + 2\<close>, so
  that a forward converter paired with the inverse of another type shows in the result.
\<close>

definition scaled_converters :: "int converters" where
  "scaled_converters =
    \<lparr>Thermocouple_temperature_to_TEMF_R = (\<lambda>Temperature. Temperature * 2),
     Thermocouple_TEMF_to_temperature_R = (\<lambda>TEMF. TEMF div 2),
     Thermocouple_temperature_to_TEMF_S = (\<lambda>Temperature. Temperature * 3),
     Thermocouple_TEMF_to_temperature_S = (\<lambda>TEMF. TEMF div 3),
     Thermocouple_temperature_to_TEMF_B = (\<lambda>Temperature. Temperature * 4),
     Thermocouple_TEMF_to_temperature_B = (\<lambda>TEMF. TEMF div 4),
     Thermocouple_temperature_to_TEMF_J = (\<lambda>Temperature. Temperature * 5),
     Thermocouple_TEMF_to_temperature_J = (\<lambda>TEMF. TEMF div 5),
     Thermocouple_temperature_to_TEMF_T = (\<lambda>Temperature. Temperature * 6),
     Thermocouple_TEMF_to_temperature_T = (\<lambda>TEMF. TEMF div 6),
     Thermocouple_temperature_to_TEMF_E = (\<lambda>Temperature. Temperature * 7),
     Thermocouple_TEMF_to_temperature_E = (\<lambda>TEMF. TEMF div 7),
     Thermocouple_temperature_to_TEMF_K = (\<lambda>Temperature. Temperature * 8),
     Thermocouple_TEMF_to_temperature_K = (\<lambda>TEMF. TEMF div 8),
     Thermocouple_temperature_to_TEMF_N = (\<lambda>Temperature. Temperature * 9),
     Thermocouple_TEMF_to_temperature_N = (\<lambda>TEMF. TEMF div 9),
     Thermocouple_temperature_to_TEMF_A1 = (\<lambda>Temperature. Temperature * 10),
     Thermocouple_TEMF_to_temperature_A1 = (\<lambda>TEMF. TEMF div 10),
     Thermocouple_temperature_to_TEMF_A2 = (\<lambda>Temperature. Temperature * 11),
     Thermocouple_TEMF_to_temperature_A2 = (\<lambda>TEMF. TEMF div 11),
     Thermocouple_temperature_to_TEMF_A3 = (\<lambda>Temperature. Temperature * 12),
     Thermocouple_TEMF_to_temperature_A3 = (\<lambda>TEMF. TEMF div 12),
     Thermocouple_temperature_to_TEMF_L = (\<lambda>Temperature. Temperature * 13),
     Thermocouple_TEMF_to_temperature_L = (\<lambda>TEMF. TEMF div 13),
     Thermocouple_temperature_to_TEMF_M = (\<lambda>Temperature. Temperature * 14),
     Thermocouple_TEMF_to_temperature_M = (\<lambda>TEMF. TEMF div 14)\<rparr>"

section \<open>The documented ranges\<close>

text \<open>
  The comment at the head of the file documents two tables. Lines 24-37 give, for each
  type, the range of temperatures in degrees Celsius. Lines 39-52 give the range of
  thermo-EMF in millivolts together with the span of temperatures that this range
  corresponds to. Both are data here, keyed by the enumerator of the type.
\<close>

definition temperature_range :: "(int \<times> real \<times> real) list" where
  "temperature_range =
    [(Thermocouple_R, (- 50, 1768.1)),
     (Thermocouple_S, (- 50, 1768.1)),
     (Thermocouple_B, (0, 1820)),
     (Thermocouple_J, (- 210, 1200)),
     (Thermocouple_T, (- 270, 400)),
     (Thermocouple_E, (- 270, 1000)),
     (Thermocouple_K, (- 270, 1372)),
     (Thermocouple_N, (- 270, 1300)),
     (Thermocouple_A1, (0, 2500)),
     (Thermocouple_A2, (0, 1800)),
     (Thermocouple_A3, (0, 1800)),
     (Thermocouple_L, (- 200, 800)),
     (Thermocouple_M, (- 200, 100))]"

definition TEMF_range :: "(int \<times> (real \<times> real) \<times> (real \<times> real)) list" where
  "TEMF_range =
    [(Thermocouple_R, ((- 0.225, 21.103), (- 50, 1768.1))),
     (Thermocouple_S, ((- 0.235, 18.694), (- 50, 1768.1))),
     (Thermocouple_B, ((0.291, 13.820), (250, 1820))),
     (Thermocouple_J, ((- 8.095, 69.553), (- 210, 1200))),
     (Thermocouple_T, ((- 5.603, 20.872), (- 200, 400))),
     (Thermocouple_E, ((- 8.825, 76.373), (- 200, 1000))),
     (Thermocouple_K, ((- 5.891, 54.886), (- 200, 1372))),
     (Thermocouple_N, ((- 3.990, 47.513), (- 200, 1300))),
     (Thermocouple_A1, ((0, 33.640), (0, 2500))),
     (Thermocouple_A2, ((0, 27.232), (0, 1800))),
     (Thermocouple_A3, ((0, 26.773), (0, 1800))),
     (Thermocouple_L, ((- 9.488, 66.466), (- 200, 800))),
     (Thermocouple_M, ((- 6.154, 4.722), (- 200, 100)))]"

text \<open>
  A temperature lies in the documented temperature range of a type; a temperature lies
  in the span of temperatures that the documented range of thermo-EMF covers.
\<close>

definition in_temperature_range :: "int \<Rightarrow> real \<Rightarrow> bool" where
  "in_temperature_range ty t =
    (case map_of temperature_range ty of
       None \<Rightarrow> False
     | Some (lo, hi) \<Rightarrow> lo \<le> t \<and> t \<le> hi)"

definition in_TEMF_range_span :: "int \<Rightarrow> real \<Rightarrow> bool" where
  "in_TEMF_range_span ty t =
    (case map_of TEMF_range ty of
       None \<Rightarrow> False
     | Some (emf, (lo, hi)) \<Rightarrow> lo \<le> t \<and> t \<le> hi)"

section \<open>Facts about the selectors\<close>

lemmas Thermocouple_defs =
  Thermocouple_R_def Thermocouple_S_def Thermocouple_B_def Thermocouple_J_def
  Thermocouple_T_def Thermocouple_E_def Thermocouple_K_def Thermocouple_N_def
  Thermocouple_A1_def Thermocouple_A2_def Thermocouple_A3_def Thermocouple_L_def
  Thermocouple_M_def

lemma enumerators_values: "enumerators = [0, 1, 2, 3, 4, 5, 6, 7, 8, 9, 10, 11, 12]"
  by (simp add: enumerators_def Thermocouple_defs)

lemma uint_le_12_iff: "uint Type \<le> 12 \<longleftrightarrow> unat Type \<le> 12" for Type :: uint8_t
proof -
  have "int (unat Type) = uint Type"
    by simp
  then show ?thesis
    by linarith
qed

lemma known_type_iff: "known_type Type \<longleftrightarrow> unat Type \<le> 12"
proof -
  have mem: "x \<in> set enumerators \<longleftrightarrow> 0 \<le> x \<and> x \<le> 12" for x :: int
    unfolding enumerators_values by (simp, presburger)
  show ?thesis
    by (simp add: known_type_def mem uint_le_12_iff)
qed

text \<open>A selector with an ordinal up to 12 is one of thirteen 8-bit values.\<close>

lemma selector_cases:
  fixes Type :: uint8_t
  assumes "unat Type \<le> 12"
  shows "Type = 0 \<or> Type = 1 \<or> Type = 2 \<or> Type = 3 \<or> Type = 4 \<or> Type = 5 \<or> Type = 6
    \<or> Type = 7 \<or> Type = 8 \<or> Type = 9 \<or> Type = 10 \<or> Type = 11 \<or> Type = 12"
proof -
  have w: "Type = word_of_nat (unat Type)"
    by simp
  from assms have "unat Type = 0 \<or> unat Type = 1 \<or> unat Type = 2 \<or> unat Type = 3
    \<or> unat Type = 4 \<or> unat Type = 5 \<or> unat Type = 6 \<or> unat Type = 7 \<or> unat Type = 8
    \<or> unat Type = 9 \<or> unat Type = 10 \<or> unat Type = 11 \<or> unat Type = 12"
    by arith
  then show ?thesis
    by (elim disjE; use w in simp)
qed

text \<open>
  The selection fails exactly on the unknown selectors, and on a known one it yields the
  two converters declared at the selector's ordinal.
\<close>

lemma converter_pair_None: "converter_pair cv Type = None \<longleftrightarrow> \<not> known_type Type"
  by (simp add: converter_pair_def known_type_def enumerators_def)

lemma converter_pair_nth:
  assumes "known_type Type"
  shows "converter_pair cv Type =
    Some (temperature_to_TEMF cv ! unat Type, TEMF_to_temperature cv ! unat Type)"
  using selector_cases [of Type] assms
  by (auto simp add: known_type_iff converter_pair_def temperature_to_TEMF_def
      TEMF_to_temperature_def Thermocouple_defs)

section \<open>The enumeration\<close>

text \<open>
  Claim C8. The selector enumeration has exactly thirteen enumerators, declared in the
  order R, S, B, J, T, E, K, N, A1, A2, A3, L, M, and their values are the consecutive
  integers 0 to 12: \<open>Thermocouple_R = 0\<close>, ..., \<open>Thermocouple_M = 12\<close>. The values are
  pairwise different, so a stored ordinal identifies one type.
\<close>

theorem enumerators_ordinals:
  "[Thermocouple_R, Thermocouple_S, Thermocouple_B, Thermocouple_J, Thermocouple_T,
    Thermocouple_E, Thermocouple_K, Thermocouple_N, Thermocouple_A1, Thermocouple_A2,
    Thermocouple_A3, Thermocouple_L, Thermocouple_M]
     = [0, 1, 2, 3, 4, 5, 6, 7, 8, 9, 10, 11, 12]
   \<and> enumerators = map int [0 ..< 13]
   \<and> length enumerators = 13
   \<and> distinct enumerators"
proof -
  have upt: "map int [0 ..< 13] = [0, 1, 2, 3, 4, 5, 6, 7, 8, 9, 10, 11, 12]"
    by (simp add: upt_rec)
  show ?thesis
    unfolding upt enumerators_values by (simp add: Thermocouple_defs)
qed

text \<open>
  Claim C9. The selector of the dispatcher is a \<^verbatim>\<open>uint8_t\<close>: the values that can reach
  the dispatcher are exactly the integers 0 to 255, so no negative and no wider value
  does. Among them the selectors that are not an enumerator, the ones the error path has
  to handle, are exactly 13 to 255, and the known ones are exactly 0 to 12.
\<close>

theorem selector_range_uint8:
  "range (uint :: uint8_t \<Rightarrow> int) = {0 .. 255}
   \<and> uint ` {Type. \<not> known_type Type} = {13 .. 255}
   \<and> uint ` {Type. known_type Type} = {0 .. 12}"
proof -
  have bound: "0 \<le> uint Type \<and> uint Type \<le> 255" for Type :: uint8_t
    using uint_bounded [of Type] by simp
  have inv: "uint (word_of_int x :: uint8_t) = x" if "0 \<le> x" "x \<le> 255" for x
    using that by (simp add: uint_word_of_int take_bit_int_eq_self)
  have known: "known_type Type \<longleftrightarrow> uint Type \<le> 12" for Type
    by (simp add: known_type_iff uint_le_12_iff)
  have r: "range (uint :: uint8_t \<Rightarrow> int) = {0 .. 255}"
  proof (intro set_eqI iffI)
    fix x
    assume "x \<in> range (uint :: uint8_t \<Rightarrow> int)"
    then show "x \<in> {0 .. 255}"
      using bound by auto
  next
    fix x :: int
    assume "x \<in> {0 .. 255}"
    then have "uint (word_of_int x :: uint8_t) = x"
      using inv by simp
    then show "x \<in> range (uint :: uint8_t \<Rightarrow> int)"
      by (metis rangeI)
  qed
  have u: "uint ` {Type. \<not> known_type Type} = {13 .. 255}"
  proof (intro set_eqI iffI)
    fix x
    assume "x \<in> uint ` {Type. \<not> known_type Type}"
    then obtain Type :: uint8_t where "x = uint Type" "\<not> known_type Type"
      by auto
    then show "x \<in> {13 .. 255}"
      using bound [of Type] known [of Type] by simp
  next
    fix x :: int
    assume x: "x \<in> {13 .. 255}"
    then have e: "uint (word_of_int x :: uint8_t) = x"
      using inv by simp
    with x have "\<not> known_type (word_of_int x :: uint8_t)"
      by (simp add: known)
    with e show "x \<in> uint ` {Type. \<not> known_type Type}"
      by (metis (mono_tags) imageI mem_Collect_eq)
  qed
  have k: "uint ` {Type. known_type Type} = {0 .. 12}"
  proof (intro set_eqI iffI)
    fix x
    assume "x \<in> uint ` {Type. known_type Type}"
    then obtain Type :: uint8_t where "x = uint Type" "known_type Type"
      by auto
    then show "x \<in> {0 .. 12}"
      using bound [of Type] known [of Type] by simp
  next
    fix x :: int
    assume x: "x \<in> {0 .. 12}"
    then have e: "uint (word_of_int x :: uint8_t) = x"
      using inv by simp
    with x have "known_type (word_of_int x :: uint8_t)"
      by (simp add: known)
    with e show "x \<in> uint ` {Type. known_type Type}"
      by (metis (mono_tags) imageI mem_Collect_eq)
  qed
  from r u k show ?thesis
    by simp
qed

section \<open>Cold-junction compensation\<close>

text \<open>
  Claim C1. For every selector with an ordinal from 0 to 12 and all values of the cold
  junction temperature and of the measured EMF, the dispatcher returns the type's
  inverse converter applied to the sum of the measured EMF and the type's forward
  converter applied to the cold junction temperature. The converter "of the type" is
  the one declared at the selector's ordinal.
\<close>

theorem Get_Temperature_cold_junction_compensation:
  assumes "unat Type \<le> 12"
  shows "fst (Thermocouple_Get_Temperature cv hardfault sentinel
                cold_junction_temperature measured_EMF Type s)
    = (TEMF_to_temperature cv ! unat Type)
        (measured_EMF + (temperature_to_TEMF cv ! unat Type) cold_junction_temperature)"
  using assms
  by (simp add: Thermocouple_Get_Temperature_def converter_pair_nth known_type_iff)

text \<open>
  On the stand-in table, type K (ordinal 6, gain 8) with a cold junction at 25 and no
  measured EMF gives 25 again.
\<close>

theorem Get_Temperature_cold_junction_compensation_witness:
  "unat (6 :: uint8_t) \<le> 12
   \<and> fst (Thermocouple_Get_Temperature scaled_converters Suc 0 25 0 6 0) = (0 + 25 * 8) div 8
   \<and> fst (Thermocouple_Get_Temperature scaled_converters Suc 0 25 0 6 0) = 25"
  using Get_Temperature_cold_junction_compensation [of 6 scaled_converters Suc 0 25 0 0]
  by (simp add: temperature_to_TEMF_def TEMF_to_temperature_def scaled_converters_def)

section \<open>The error hook\<close>

text \<open>
  Claim C3. For a selector outside the ordinals 0 to 12 the dispatcher runs the hook
  \<^verbatim>\<open>Thermocouple_hardfault\<close> exactly once and still returns: the state after the call is the
  hook applied once to the state before, and the value is the sentinel. With a hook that
  counts its calls the counter goes up by exactly one. For a selector from 0 to 12 the
  hook is not run: the state is unchanged and the counter keeps its value.
\<close>

theorem Get_Temperature_hardfault_iff_unknown:
  "(12 < unat Type \<longrightarrow>
      Thermocouple_Get_Temperature cv hardfault sentinel
          cold_junction_temperature measured_EMF Type s
        = (sentinel, hardfault s)
      \<and> snd (Thermocouple_Get_Temperature cv Suc sentinel
          cold_junction_temperature measured_EMF Type n)
        = n + 1)
   \<and> (unat Type \<le> 12 \<longrightarrow>
      snd (Thermocouple_Get_Temperature cv hardfault sentinel
          cold_junction_temperature measured_EMF Type s)
        = s
      \<and> snd (Thermocouple_Get_Temperature cv Suc sentinel
          cold_junction_temperature measured_EMF Type n)
        = n)"
proof (cases "known_type Type")
  case True
  then show ?thesis
    by (simp add: Thermocouple_Get_Temperature_def converter_pair_nth known_type_iff)
next
  case False
  then have "converter_pair cv Type = None"
    by (simp add: converter_pair_None)
  with False show ?thesis
    by (simp add: Thermocouple_Get_Temperature_def known_type_iff)
qed

text \<open>
  Selector 200 is unknown: the sentinel \<open>- 1\<close> comes back and the counter goes from 0
  to 1. Selector 6 is known: the counter stays at 0.
\<close>

theorem Get_Temperature_hardfault_iff_unknown_witness:
  "12 < unat (200 :: uint8_t)
   \<and> Thermocouple_Get_Temperature scaled_converters Suc (- 1) 25 0 200 0 = (- 1, 1)
   \<and> unat (6 :: uint8_t) \<le> 12
   \<and> snd (Thermocouple_Get_Temperature scaled_converters Suc (- 1) 25 0 6 0) = 0"
  using Get_Temperature_hardfault_iff_unknown [of 200 scaled_converters Suc "- 1" 25 0 0 0]
    Get_Temperature_hardfault_iff_unknown [of 6 scaled_converters Suc "- 1" 25 0 0 0]
  by simp

section \<open>The gap in the documented ranges\<close>

text \<open>
  For the types T, E, K and N the temperature range is documented from \<open>- 270\<close> degrees,
  while the documented range of thermo-EMF corresponds to temperatures from \<open>- 200\<close>
  degrees upward; for K its lower end is \<open>- 5.891\<close> mV. So the temperatures from
  \<open>- 270\<close> up to, but excluding, \<open>- 200\<close> are inside the first table and outside the span
  of the second. These are facts about the two tables; what the converters return there
  depends on bodies that the header does not contain.
\<close>

lemma documented_lower_ends:
  "map (\<lambda>ty. (map_option fst (map_of temperature_range ty),
               map_option (fst \<circ> snd) (map_of TEMF_range ty)))
     [Thermocouple_T, Thermocouple_E, Thermocouple_K, Thermocouple_N]
   = [(Some (- 270), Some (- 200)), (Some (- 270), Some (- 200)),
      (Some (- 270), Some (- 200)), (Some (- 270), Some (- 200))]
   \<and> map_of TEMF_range Thermocouple_K = Some ((- 5.891, 54.886), (- 200, 1372))"
  by (simp add: temperature_range_def TEMF_range_def Thermocouple_defs)

lemma documented_low_temperature_gap:
  assumes "ty \<in> {Thermocouple_T, Thermocouple_E, Thermocouple_K, Thermocouple_N}"
    and "- 270 \<le> t" and "t < - 200"
  shows "in_temperature_range ty t \<and> \<not> in_TEMF_range_span ty t"
  using assms
  by (auto simp add: in_temperature_range_def in_TEMF_range_span_def temperature_range_def
      TEMF_range_def Thermocouple_defs)

end
